theory Spec2Isabelle
  imports Complex_Main "HOL-Library.AList"
begin

section \<open>JavaScript values\<close>

text \<open>
  The capability sets, request identifiers and request parameters of the server are
  JSON values decoded by the HTTP layer.  A field that is missing from an object reads as
  \<open>undefined\<close>; it is modelled by \<open>None\<close> in a \<open>json option\<close>.  Numbers are the
  exact rational values of the decoded doubles (JSON has no NaN and no infinity), strings
  are sequences of code units.
\<close>

datatype json =
    JNull
  | JBool bool
  | JNum rat
  | JStr string
  | JArr "json list"
  | JObj "(string \<times> json) list"

text \<open>The truthiness test that \<open>if (v)\<close>, \<open>a && b\<close> and \<open>!!v\<close> apply to a value.\<close>

fun truthy :: "json \<Rightarrow> bool" where
  "truthy JNull = False"
| "truthy (JBool b) = b"
| "truthy (JNum n) = (n \<noteq> 0)"
| "truthy (JStr s) = (s \<noteq> [])"
| "truthy (JArr xs) = True"
| "truthy (JObj kvs) = True"

fun truthy_opt :: "json option \<Rightarrow> bool" where
  "truthy_opt None = False"
| "truthy_opt (Some v) = truthy v"

text \<open>
  A property read \<open>obj[key]\<close> on a plain object first looks for an own property and then
  follows the prototype chain to \<open>Object.prototype\<close>, whose members (all of them
  functions or objects, hence truthy) are listed here.
\<close>

definition object_prototype_keys :: "string list" where
  "object_prototype_keys =
     [''constructor'', ''__defineGetter__'', ''__defineSetter__'', ''hasOwnProperty'',
      ''__lookupGetter__'', ''__lookupSetter__'', ''isPrototypeOf'',
      ''propertyIsEnumerable'', ''toString'', ''valueOf'', ''__proto__'',
      ''toLocaleString'']"

text \<open>Whether \<open>obj[key]\<close> is truthy, for a plain object with the own properties \<open>obj\<close>.\<close>

definition prop_truthy :: "(string \<times> json) list \<Rightarrow> string \<Rightarrow> bool" where
  "prop_truthy obj key =
     (case map_of obj key of
        Some v \<Rightarrow> truthy v
      | None \<Rightarrow> key \<in> set object_prototype_keys)"

text \<open>
  The assignment \<open>obj[key] = true\<close> on a plain object: it creates or overwrites an own
  property, keeping the position of an existing key, except for \<open>__proto__\<close>, whose
  inherited setter ignores a value that is neither an object nor null.
\<close>

definition set_true :: "string \<Rightarrow> (string \<times> bool) list \<Rightarrow> (string \<times> bool) list" where
  "set_true key obj = (if key = ''__proto__'' then obj else AList.update key True obj)"

section \<open>Capability negotiation (session-manager.ts)\<close>

text \<open>
  \<open>ServerCapabilities\<close> and \<open>ClientCapabilities\<close>: every named field is optional and
  holds a JSON value; \<open>experimental\<close>, when present, is an object, given by its own
  properties in the order \<open>Object.entries\<close> lists them.
\<close>

record Capabilities =
  tools :: "json option"
  resources :: "json option"
  prompts :: "json option"
  logging :: "json option"
  sampling :: "json option"
  experimental :: "(string \<times> json) list option"

record NegotiatedCapabilities =
  n_tools :: bool
  n_resources :: bool
  n_prompts :: bool
  n_logging :: bool
  n_sampling :: bool
  n_experimental :: "(string \<times> bool) list option"

text \<open>The loop over \<open>Object.entries(clientCapabilities.experimental)\<close>.\<close>

fun negotiateExperimental ::
  "(string \<times> json) list \<Rightarrow> (string \<times> json) list \<Rightarrow> (string \<times> bool) list \<Rightarrow> (string \<times> bool) list"
where
  "negotiateExperimental serverExp [] acc = acc"
| "negotiateExperimental serverExp ((feature, clientSupport) # rest) acc =
     negotiateExperimental serverExp rest
       (if truthy clientSupport \<and> prop_truthy serverExp feature
        then set_true feature acc else acc)"

definition negotiateCapabilities :: "Capabilities \<Rightarrow> Capabilities \<Rightarrow> NegotiatedCapabilities" where
  "negotiateCapabilities serverCapabilities clientCapabilities =
     \<lparr> n_tools = (truthy_opt (tools serverCapabilities) \<and> truthy_opt (tools clientCapabilities)),
       n_resources =
         (truthy_opt (resources serverCapabilities) \<and> truthy_opt (resources clientCapabilities)),
       n_prompts =
         (truthy_opt (prompts serverCapabilities) \<and> truthy_opt (prompts clientCapabilities)),
       n_logging =
         (truthy_opt (logging serverCapabilities) \<and> truthy_opt (logging clientCapabilities)),
       n_sampling = truthy_opt (sampling clientCapabilities),
       n_experimental =
         (case (experimental clientCapabilities, experimental serverCapabilities) of
            (Some clientExp, Some serverExp) \<Rightarrow>
              Some (negotiateExperimental serverExp clientExp [])
          | _ \<Rightarrow> None) \<rparr>"

text \<open>
  A party advertises a capability when the field is present with a truthy value, and an
  experimental key when its \<open>experimental\<close> object has that own property with a truthy
  value.
\<close>

definition advertises_experimental :: "Capabilities \<Rightarrow> string \<Rightarrow> bool" where
  "advertises_experimental caps key =
     (case experimental caps of
        None \<Rightarrow> False
      | Some obj \<Rightarrow> (case map_of obj key of None \<Rightarrow> False | Some v \<Rightarrow> truthy v))"

definition negotiated_experimental :: "NegotiatedCapabilities \<Rightarrow> string \<Rightarrow> bool" where
  "negotiated_experimental n key =
     (case n_experimental n of
        None \<Rightarrow> False
      | Some obj \<Rightarrow> map_of obj key = Some True)"

section \<open>The session store (session-manager.ts)\<close>

text \<open>
  Timestamps are \<open>Date\<close> values, read as milliseconds since the epoch.  The client
  information and the protocol version are stored as they were received and never
  examined.
\<close>

record ManagedSession =
  ms_id :: string
  clientInfo :: "json option"
  protocolVersion :: "json option"
  clientCapabilities :: Capabilities
  negotiatedCapabilities :: NegotiatedCapabilities
  metadata :: "(string \<times> json) list"
  createdAt :: int
  lastActivity :: int

text \<open>
  The \<open>sessions\<close> field is a JavaScript \<open>Map\<close>: an association list in insertion
  order.  \<open>Map.set\<close> is \<open>AList.update\<close> (an existing key keeps its position, a new one
  goes to the end), \<open>Map.get\<close> is \<open>map_of\<close>, \<open>Map.delete\<close> is \<open>AList.delete\<close>.
\<close>

record SessionManager =
  sessions :: "(string \<times> ManagedSession) list"
  serverCapabilities :: Capabilities

definition default_server_capabilities :: Capabilities where
  "default_server_capabilities =
     \<lparr> tools = Some (JObj []), resources = Some (JObj []), prompts = Some (JObj []),
       logging = Some (JObj []), sampling = None, experimental = None \<rparr>"

definition new_SessionManager :: "Capabilities option \<Rightarrow> SessionManager" where
  "new_SessionManager caps =
     \<lparr> sessions = [],
       serverCapabilities = (case caps of Some c \<Rightarrow> c | None \<Rightarrow> default_server_capabilities) \<rparr>"

text \<open>
  Every method takes the manager and returns its result together with the manager it
  leaves behind.  \<open>now\<close> is the clock reading of \<open>new Date()\<close> during the call; a call
  that reads the clock twice reads the same instant.
\<close>

definition createSession ::
  "SessionManager \<Rightarrow> int \<Rightarrow> string \<Rightarrow> json option \<Rightarrow> json option \<Rightarrow> Capabilities
     \<Rightarrow> ManagedSession \<times> SessionManager"
where
  "createSession sm now sessionId cinfo pversion ccaps =
     (let session =
        \<lparr> ms_id = sessionId,
          clientInfo = cinfo,
          protocolVersion = pversion,
          clientCapabilities = ccaps,
          negotiatedCapabilities = negotiateCapabilities (serverCapabilities sm) ccaps,
          metadata = [],
          createdAt = now,
          lastActivity = now \<rparr>
      in (session, sm\<lparr>sessions := AList.update sessionId session (sessions sm)\<rparr>))"

definition getSession ::
  "SessionManager \<Rightarrow> int \<Rightarrow> string \<Rightarrow> ManagedSession option \<times> SessionManager"
where
  "getSession sm now sessionId =
     (case map_of (sessions sm) sessionId of
        None \<Rightarrow> (None, sm)
      | Some session \<Rightarrow>
          (let session' = session\<lparr>lastActivity := now\<rparr>
           in (Some session', sm\<lparr>sessions := AList.update sessionId session' (sessions sm)\<rparr>)))"

datatype capability = Tools | Resources | Prompts | Logging | Sampling | Experimental

text \<open>\<open>!!session.negotiatedCapabilities[capability]\<close>\<close>

fun capability_flag :: "NegotiatedCapabilities \<Rightarrow> capability \<Rightarrow> bool" where
  "capability_flag n Tools = n_tools n"
| "capability_flag n Resources = n_resources n"
| "capability_flag n Prompts = n_prompts n"
| "capability_flag n Logging = n_logging n"
| "capability_flag n Sampling = n_sampling n"
| "capability_flag n Experimental = (n_experimental n \<noteq> None)"

definition hasCapability ::
  "SessionManager \<Rightarrow> string \<Rightarrow> capability \<Rightarrow> bool \<times> SessionManager"
where
  "hasCapability sm sessionId cap =
     (case map_of (sessions sm) sessionId of
        None \<Rightarrow> (False, sm)
      | Some session \<Rightarrow> (capability_flag (negotiatedCapabilities session) cap, sm))"

definition removeSession :: "SessionManager \<Rightarrow> string \<Rightarrow> SessionManager" where
  "removeSession sm sessionId = sm\<lparr>sessions := AList.delete sessionId (sessions sm)\<rparr>"

definition getActiveSessions :: "SessionManager \<Rightarrow> ManagedSession list" where
  "getActiveSessions sm = map snd (sessions sm)"

text \<open>
  \<open>cleanupStaleSessions\<close>: the loop visits the entries of the map in order and removes
  the entry it is visiting when it is stale.  The optional argument defaults to five
  minutes.
\<close>

fun cleanup_loop ::
  "int \<Rightarrow> int \<Rightarrow> (string \<times> ManagedSession) list \<Rightarrow> SessionManager \<Rightarrow> SessionManager"
where
  "cleanup_loop now maxInactivityMs [] sm = sm"
| "cleanup_loop now maxInactivityMs ((sessionId, session) # rest) sm =
     cleanup_loop now maxInactivityMs rest
       (if now - lastActivity session > maxInactivityMs
        then removeSession sm sessionId else sm)"

definition cleanupStaleSessions :: "SessionManager \<Rightarrow> int \<Rightarrow> int option \<Rightarrow> SessionManager" where
  "cleanupStaleSessions sm now maxInactivityMs =
     cleanup_loop now (case maxInactivityMs of None \<Rightarrow> 5 * 60 * 1000 | Some m \<Rightarrow> m)
       (sessions sm) sm"

text \<open>
  \<open>getSessionCapabilities\<close>: the server's capabilities filtered by what the session
  negotiated; the empty object for an unknown session.
\<close>

definition no_capabilities :: Capabilities where
  "no_capabilities =
     \<lparr> tools = None, resources = None, prompts = None, logging = None, sampling = None,
       experimental = None \<rparr>"

text \<open>
  In the loop below an inherited member of \<open>Object.prototype\<close> would be copied as a
  function value, which the JSON response does not carry; only own properties of the
  server's object appear in the result.
\<close>

fun filterExperimental ::
  "(string \<times> json) list \<Rightarrow> (string \<times> bool) list \<Rightarrow> (string \<times> json) list \<Rightarrow> (string \<times> json) list"
where
  "filterExperimental serverExp [] acc = acc"
| "filterExperimental serverExp ((feature, enabled) # rest) acc =
     filterExperimental serverExp rest
       (case map_of serverExp feature of
          Some v \<Rightarrow> (if enabled \<and> truthy v then AList.update feature v acc else acc)
        | None \<Rightarrow> acc)"

definition getSessionCapabilities :: "SessionManager \<Rightarrow> string \<Rightarrow> Capabilities" where
  "getSessionCapabilities sm sessionId =
     (case map_of (sessions sm) sessionId of
        None \<Rightarrow> no_capabilities
      | Some session \<Rightarrow>
          (let n = negotiatedCapabilities session; srv = serverCapabilities sm in
           \<lparr> tools = (if n_tools n then tools srv else None),
             resources = (if n_resources n then resources srv else None),
             prompts = (if n_prompts n then prompts srv else None),
             logging = (if n_logging n then logging srv else None),
             sampling = None,
             experimental =
               (case n_experimental n of
                  None \<Rightarrow> None
                | Some nexp \<Rightarrow>
                    Some (filterExperimental
                            (case experimental srv of Some e \<Rightarrow> e | None \<Rightarrow> []) nexp [])) \<rparr>))"

section \<open>The streaming transport manager (sse-transport.ts)\<close>

text \<open>
  An \<open>SSESession\<close> holds a reference to its \<open>SSEServerTransport\<close>.  The transport is
  an object of the protocol SDK; it is identified here by its \<open>sessionId\<close>, and the
  manager's state records how many times \<open>close()\<close> has been called on each transport
  and what \<open>console.error\<close> has printed.
\<close>

record SSESession =
  sse_id :: string
  transport :: string
  capabilities :: "(string \<times> json) list"
  sse_createdAt :: int
  sse_lastActivity :: int

record SSETransportManager =
  sse_sessions :: "(string \<times> SSESession) list"
  closeCalls :: "string \<Rightarrow> nat"
  errorLog :: "string list"

text \<open>
  \<open>removeSession\<close>.  \<open>closeRejects t\<close> tells whether the promise returned by
  \<open>close()\<close> on transport \<open>t\<close> rejects (for instance because the stream was closed
  before) and with what reason; the \<open>catch\<close> handler prints the rejection and nothing
  else happens with it.
\<close>

definition sse_removeSession ::
  "(string \<Rightarrow> string option) \<Rightarrow> SSETransportManager \<Rightarrow> string \<Rightarrow> SSETransportManager"
where
  "sse_removeSession closeRejects mgr sessionId =
     (case map_of (sse_sessions mgr) sessionId of
        None \<Rightarrow> mgr
      | Some session \<Rightarrow>
          mgr\<lparr> closeCalls :=
                 (closeCalls mgr)(transport session := Suc (closeCalls mgr (transport session))),
               errorLog :=
                 errorLog mgr @
                   (case closeRejects (transport session) of
                      None \<Rightarrow> []
                    | Some reason \<Rightarrow>
                        [''Error closing transport for session '' @ sessionId @ '': '' @ reason]),
               sse_sessions := AList.delete sessionId (sse_sessions mgr) \<rparr>)"

definition sse_getActiveSessions :: "SSETransportManager \<Rightarrow> SSESession list" where
  "sse_getActiveSessions mgr = map snd (sse_sessions mgr)"

text \<open>
  One tick of the timer that \<open>startCleanupInterval\<close> installs: the same loop as in the
  session manager, with the fixed threshold of five minutes.
\<close>

definition staleTimeout :: int where
  "staleTimeout = 5 * 60 * 1000"

fun sse_cleanup_loop ::
  "(string \<Rightarrow> string option) \<Rightarrow> int \<Rightarrow> (string \<times> SSESession) list \<Rightarrow> SSETransportManager
     \<Rightarrow> SSETransportManager"
where
  "sse_cleanup_loop closeRejects now [] mgr = mgr"
| "sse_cleanup_loop closeRejects now ((sessionId, session) # rest) mgr =
     sse_cleanup_loop closeRejects now rest
       (if now - sse_lastActivity session > staleTimeout
        then sse_removeSession closeRejects mgr sessionId else mgr)"

definition cleanup_tick ::
  "(string \<Rightarrow> string option) \<Rightarrow> int \<Rightarrow> SSETransportManager \<Rightarrow> SSETransportManager"
where
  "cleanup_tick closeRejects now mgr = sse_cleanup_loop closeRejects now (sse_sessions mgr) mgr"

text \<open>
  What a call of the message endpoint leaves on the HTTP response: a JSON-RPC error
  (status, code, message, id), whatever the transport wrote when its handler returned, or
  nothing new when the handler failed after the response headers had been sent.
\<close>

datatype message_result =
    ErrorReply nat int string json
  | HandledByTransport
  | LoggedOnly

text \<open>
  \<open>transport.handlePostMessage\<close> belongs to the SDK: it either returns, having answered
  the request itself, or throws; \<open>Threw err sent\<close> carries the error, as
  \<open>console.error\<close> prints it, and the value of \<open>res.headersSent\<close> at that moment.
\<close>

datatype handler_outcome = Returned | Threw string bool

text \<open>\<open>body?.id || null\<close>\<close>

definition body_id :: "json option \<Rightarrow> json" where
  "body_id body =
     (case body of
        Some (JObj kvs) \<Rightarrow>
          (case map_of kvs ''id'' of Some v \<Rightarrow> (if truthy v then v else JNull) | None \<Rightarrow> JNull)
      | _ \<Rightarrow> JNull)"

definition handleMessage ::
  "(string \<Rightarrow> json option \<Rightarrow> handler_outcome) \<Rightarrow> SSETransportManager \<Rightarrow> int \<Rightarrow> string
     \<Rightarrow> json option \<Rightarrow> message_result \<times> SSETransportManager"
where
  "handleMessage handlePostMessage mgr now sessionId body =
     (case map_of (sse_sessions mgr) sessionId of
        None \<Rightarrow> (ErrorReply 404 (- 32000) (''Session not found: '' @ sessionId) JNull, mgr)
      | Some session \<Rightarrow>
          (let mgr' = mgr\<lparr>sse_sessions :=
                        AList.update sessionId (session\<lparr>sse_lastActivity := now\<rparr>)
                          (sse_sessions mgr)\<rparr>
           in case handlePostMessage (transport session) body of
                Returned \<Rightarrow> (HandledByTransport, mgr')
              | Threw err headersSent \<Rightarrow>
                  (let mgr'' =
                         mgr'\<lparr>errorLog :=
                                errorLog mgr' @
                                  [''Error handling message for session '' @ sessionId @ '': '' @ err]\<rparr>
                   in if \<not> headersSent
                      then (ErrorReply 500 (- 32603) ''Internal server error'' (body_id body), mgr'')
                      else (LoggedOnly, mgr''))))"

text \<open>
  The \<open>POST /messages\<close> route of the entry point.  \<open>req.query.sessionId\<close> is absent
  (\<open>None\<close>) or a string; the manager is \<open>null\<close> (\<open>None\<close>) when the transport could not be
  initialised at start-up.  \<open>handleMessage\<close> catches the failure of the transport's
  handler itself and throws nothing, so the \<open>catch\<close> of the route is not entered.  The
  error log is part of the manager's state, so the line that the route prints when there
  is no manager has no place in the result.
\<close>

definition messages_endpoint ::
  "(string \<Rightarrow> json option \<Rightarrow> handler_outcome) \<Rightarrow> SSETransportManager option \<Rightarrow> int
     \<Rightarrow> string option \<Rightarrow> json option \<Rightarrow> message_result \<times> SSETransportManager option"
where
  "messages_endpoint handlePostMessage sseManager now sessionId body =
     (if \<not> (case sessionId of None \<Rightarrow> False | Some sid \<Rightarrow> sid \<noteq> [])
      then (ErrorReply 400 (- 32600) ''Session ID is required'' JNull, sseManager)
      else case (sseManager, sessionId) of
             (Some mgr, Some sid) \<Rightarrow>
               (let (r, mgr') = handleMessage handlePostMessage mgr now sid body
                in (r, Some mgr'))
           | _ \<Rightarrow> (ErrorReply 500 (- 32603) ''SSE transport not available'' JNull, sseManager))"

section \<open>The tools (tools.ts)\<close>

text \<open>
  A \<open>ToolResult\<close>; its \<open>metadata\<close> is never read by a caller and is left out.  Every
  tool wraps its whole body in \<open>try\<close>/\<open>catch\<close> and returns a result in both cases, so a
  tool call never throws.
\<close>

record ToolResult =
  success :: bool
  content :: "string option"
  error :: "string option"

definition echoTool :: "string option \<Rightarrow> ToolResult" where
  "echoTool message =
     (case message of
        None \<Rightarrow> \<lparr> success = False, content = None, error = Some ''Message is required'' \<rparr>
      | Some m \<Rightarrow>
          (if m = [] then \<lparr> success = False, content = None, error = Some ''Message is required'' \<rparr>
           else \<lparr> success = True, content = Some (''Echo: '' @ m), error = None \<rparr>))"

text \<open>
  \<open>randomNumberTool\<close>: the range check is exact; the number drawn by \<open>Math.random\<close>,
  scaled, floored on request and printed, is floating-point arithmetic of the runtime and
  enters as the function \<open>randomText\<close>.  A missing argument takes its default.
\<close>

definition randomNumberTool ::
  "(rat \<Rightarrow> rat \<Rightarrow> bool \<Rightarrow> string) \<Rightarrow> rat option \<Rightarrow> rat option \<Rightarrow> bool option \<Rightarrow> ToolResult"
where
  "randomNumberTool randomText minArg maxArg isIntegerArg =
     (let mn = (case minArg of None \<Rightarrow> 0 | Some v \<Rightarrow> v);
          mx = (case maxArg of None \<Rightarrow> 100 | Some v \<Rightarrow> v);
          isInteger = (case isIntegerArg of None \<Rightarrow> True | Some b \<Rightarrow> b)
      in if mn > mx
         then \<lparr> success = False, content = None,
                error = Some ''Minimum value cannot be greater than maximum value'' \<rparr>
         else \<lparr> success = True, content = Some (randomText mn mx isInteger), error = None \<rparr>)"

text \<open>
  The other three tools evaluate an expression, format the clock and map characters with
  the runtime's library; they are parameters of the model, together with the text of the
  sample configuration resource (which embeds the current time).
\<close>

record Runtime =
  calculatorTool :: "string option \<Rightarrow> ToolResult"
  timestampTool :: "string option \<Rightarrow> ToolResult"
  stringTool :: "string option \<Rightarrow> string option \<Rightarrow> ToolResult"
  randomText :: "rat \<Rightarrow> rat \<Rightarrow> bool \<Rightarrow> string"
  sampleConfigText :: string

definition tool_names :: "string list" where
  "tool_names = [''echo'', ''calculate'', ''get_timestamp'', ''random_number'', ''string_manipulation'']"

section \<open>String replacement\<close>

text \<open>\<open>s.indexOf(pat)\<close>: the first position at which \<open>pat\<close> occurs in \<open>s\<close>.\<close>

fun indexOf :: "string \<Rightarrow> string \<Rightarrow> nat option" where
  "indexOf [] pat = (if pat = [] then Some 0 else None)"
| "indexOf (c # cs) pat =
     (if take (length pat) (c # cs) = pat then Some 0
      else map_option Suc (indexOf cs pat))"

text \<open>
  The replacement text of \<open>String.prototype.replace\<close> is not inserted literally: \<open>$$\<close>
  stands for a dollar sign, \<open>$&\<close> for the matched text, \<open>$`\<close> for the text before the
  match and \<open>$'\<close> for the text after it.  With a string pattern there are no capture
  groups, and any other use of the dollar sign is literal.
\<close>

fun getSubstitution :: "string \<Rightarrow> string \<Rightarrow> string \<Rightarrow> string \<Rightarrow> string" where
  "getSubstitution matched preceding following [] = []"
| "getSubstitution matched preceding following [c] = [c]"
| "getSubstitution matched preceding following (c # d # rest) =
     (if c = CHR ''$'' \<and> d = CHR ''$'' then CHR ''$'' # getSubstitution matched preceding following rest
      else if c = CHR ''$'' \<and> d = CHR ''&'' then matched @ getSubstitution matched preceding following rest
      else if c = CHR ''$'' \<and> d = CHR ''`'' then preceding @ getSubstitution matched preceding following rest
      else if c = CHR ''$'' \<and> d = CHR 0x27 then following @ getSubstitution matched preceding following rest
      else c # getSubstitution matched preceding following (d # rest))"

text \<open>\<open>s.replace(pat, replacement)\<close> with a string pattern: the first occurrence only.\<close>

definition js_replace :: "string \<Rightarrow> string \<Rightarrow> string \<Rightarrow> string" where
  "js_replace s pat replacement =
     (case indexOf s pat of
        None \<Rightarrow> s
      | Some i \<Rightarrow>
          take i s
            @ getSubstitution pat (take i s) (drop (i + length pat) s) replacement
            @ drop (i + length pat) s)"

definition placeholder :: "string \<Rightarrow> string" where
  "placeholder key = ''{{'' @ key @ ''}}''"

text \<open>
  The substitution loop of \<open>prompts/get\<close>, the same in the HTTP handler and in the
  SDK-based server: one \<open>replace\<close> for each entry of the argument map, in the order of
  \<open>Object.entries\<close>.  The values are the strings \<open>String(value)\<close>.
\<close>

fun processTemplate :: "string \<Rightarrow> (string \<times> string) list \<Rightarrow> string" where
  "processTemplate processedTemplate [] = processedTemplate"
| "processTemplate processedTemplate ((key, v) # rest) =
     processTemplate (js_replace processedTemplate (placeholder key) v) rest"

section \<open>The request router (enhanced-http-handler.ts)\<close>

text \<open>
  The arguments of a tool call, typed as the tools' input schemas declare them; a missing
  field is \<open>None\<close>.
\<close>

record ToolArgs =
  arg_message :: "string option"
  arg_expression :: "string option"
  arg_format :: "string option"
  arg_min :: "rat option"
  arg_max :: "rat option"
  arg_isInteger :: "bool option"
  arg_text :: "string option"
  arg_operation :: "string option"

definition no_arguments :: ToolArgs where
  "no_arguments =
     \<lparr> arg_message = None, arg_expression = None, arg_format = None, arg_min = None,
       arg_max = None, arg_isInteger = None, arg_text = None, arg_operation = None \<rparr>"

text \<open>
  The fields of \<open>request.params\<close> that the router reads.  The \<open>arguments\<close> object is read
  under the type its method gives it, as tool arguments by \<open>tools/call\<close> and as a map of
  strings by \<open>prompts/get\<close>; the record carries each reading in a field of its own.
\<close>

record Params =
  p_protocolVersion :: "json option"
  p_capabilities :: "Capabilities option"
  p_clientInfo :: "json option"
  p_name :: "string option"
  p_arguments :: "ToolArgs option"
  p_promptArguments :: "(string \<times> string) list option"
  p_uri :: "string option"

record JsonRpcRequest =
  jsonrpc :: "string option"
  req_id :: "json option"
  req_method :: "string option"
  params :: "Params option"

text \<open>
  What a handler throws: an object with a code and a message, or an \<open>Error\<close> of the
  runtime, which has a message and no code.
\<close>

datatype thrown = Structured int string | JsError string

text \<open>
  The result of each method, given by the part of it that varies: the constant protocol
  version and server information of \<open>initialize\<close> and the descriptions in the listings
  are left out, a listing is given by its names or URIs, a tool result by the text of its
  single content item and its \<open>isError\<close> field, a prompt by the text of its message.
\<close>

datatype payload =
    PingResult
  | InitializeResult Capabilities
  | ToolsListResult "string list"
  | ToolCallResult "string option" "bool option"
  | ResourcesListResult "string list"
  | ResourceTemplatesListResult "string list"
  | ReadResourceResult string string string
  | PromptsListResult "string list"
  | GetPromptResult "string option"

definition PARSE_ERROR :: int where "PARSE_ERROR = - 32700"
definition INVALID_REQUEST :: int where "INVALID_REQUEST = - 32600"
definition METHOD_NOT_FOUND :: int where "METHOD_NOT_FOUND = - 32601"
definition INVALID_PARAMS :: int where "INVALID_PARAMS = - 32602"
definition INTERNAL_ERROR :: int where "INTERNAL_ERROR = - 32603"

definition http_sessionId :: string where
  "http_sessionId = ''http-default''"

text \<open>A value that may be \<open>undefined\<close>, inside a template literal.\<close>

definition show_opt :: "string option \<Rightarrow> string" where
  "show_opt v = (case v of None \<Rightarrow> ''undefined'' | Some s \<Rightarrow> s)"

text \<open>The \<open>switch\<close> on the tool name inside \<open>tools/call\<close>; \<open>None\<close> is the default branch.\<close>

definition dispatchTool :: "Runtime \<Rightarrow> string option \<Rightarrow> ToolArgs \<Rightarrow> ToolResult option" where
  "dispatchTool rt name args =
     (if name = Some ''echo'' then Some (echoTool (arg_message args))
      else if name = Some ''calculate'' then Some (calculatorTool rt (arg_expression args))
      else if name = Some ''get_timestamp'' then Some (timestampTool rt (arg_format args))
      else if name = Some ''random_number''
        then Some (randomNumberTool (randomText rt) (arg_min args) (arg_max args) (arg_isInteger args))
      else if name = Some ''string_manipulation''
        then Some (stringTool rt (arg_text args) (arg_operation args))
      else None)"

definition callTool :: "Runtime \<Rightarrow> string option \<Rightarrow> ToolArgs \<Rightarrow> payload" where
  "callTool rt name args =
     (case dispatchTool rt name args of
        Some result \<Rightarrow>
          ToolCallResult (if success result then content result else error result) None
      | None \<Rightarrow>
          ToolCallResult
            (Some (''Error executing tool '' @ show_opt name @ '': Error: Unknown tool: ''
                     @ show_opt name))
            (Some True))"

definition welcome_text :: string where
  "welcome_text =
     ''Welcome to the Enhanced MCP Server!\<newline>\<newline>This server features:\<newline>''
     @ ''- Full SSE transport with bidirectional communication\<newline>''
     @ ''- Dynamic capability negotiation\<newline>''
     @ ''- Session management\<newline>''
     @ ''- Complete 2025 MCP specification compliance\<newline>\<newline>''
     @ ''Available tools: echo, calculate, get_timestamp, random_number, string_manipulation''"

text \<open>
  The prompt table of \<open>prompts/get\<close> is a plain object indexed by the requested name:
  an own property gives a template, a member of \<open>Object.prototype\<close> gives a truthy value
  without a \<open>template\<close> field, anything else is not found.
\<close>

datatype prompt_lookup = Template string | Inherited | NotFound

definition calculate_template :: string where
  "calculate_template = ''Please calculate: {{expression}}''"

definition query_template :: string where
  "query_template =
     ''Question: {{question}}\<newline>\<newline>Context: {{context}}\<newline>\<newline>Please provide a detailed answer.''"

definition lookup_prompt :: "string option \<Rightarrow> prompt_lookup" where
  "lookup_prompt name =
     (if name = Some ''calculate'' then Template calculate_template
      else if name = Some ''query'' then Template query_template
      else if show_opt name \<in> set object_prototype_keys then Inherited
      else NotFound)"

definition getPrompt :: "string option \<Rightarrow> (string \<times> string) list option \<Rightarrow> thrown + payload" where
  "getPrompt name arguments =
     (case lookup_prompt name of
        NotFound \<Rightarrow> Inl (Structured INVALID_PARAMS (''Prompt not found: '' @ show_opt name))
      | Template template \<Rightarrow>
          Inr (GetPromptResult
                 (Some (case arguments of None \<Rightarrow> template
                        | Some entries \<Rightarrow> processTemplate template entries)))
      | Inherited \<Rightarrow>
          (case arguments of
             None \<Rightarrow> Inr (GetPromptResult None)
           | Some [] \<Rightarrow> Inr (GetPromptResult None)
           | Some (e # es) \<Rightarrow>
               Inl (JsError ''Cannot read properties of undefined (reading 'replace')'')))"

definition not_negotiated :: "string \<Rightarrow> thrown" where
  "not_negotiated what =
     Structured METHOD_NOT_FOUND (what @ '' capability not negotiated for this session'')"

definition routeRequest ::
  "Runtime \<Rightarrow> SessionManager \<Rightarrow> int \<Rightarrow> JsonRpcRequest
     \<Rightarrow> (thrown + payload) \<times> SessionManager"
where
  "routeRequest rt sm now request =
     (if req_method request = Some ''ping'' then (Inr PingResult, sm)
      else if req_method request = Some ''initialize'' then
        (case params request of
           None \<Rightarrow>
             (Inl (JsError ''Cannot destructure property 'protocolVersion' of 'request.params' as it is undefined.''), sm)
         | Some p \<Rightarrow>
             (let (newSession, sm') =
                    createSession sm now http_sessionId (p_clientInfo p) (p_protocolVersion p)
                      (case p_capabilities p of None \<Rightarrow> no_capabilities | Some c \<Rightarrow> c)
              in (Inr (InitializeResult (getSessionCapabilities sm' http_sessionId)), sm')))
      else if req_method request = Some ''tools/list'' then
        (if \<not> fst (hasCapability sm http_sessionId Tools) then (Inl (not_negotiated ''Tools''), sm)
         else (Inr (ToolsListResult tool_names), sm))
      else if req_method request = Some ''tools/call'' then
        (if \<not> fst (hasCapability sm http_sessionId Tools) then (Inl (not_negotiated ''Tools''), sm)
         else case params request of
                None \<Rightarrow> (Inl (JsError ''Cannot read properties of undefined (reading 'name')''), sm)
              | Some p \<Rightarrow>
                  (Inr (callTool rt (p_name p)
                          (case p_arguments p of None \<Rightarrow> no_arguments | Some a \<Rightarrow> a)), sm))
      else if req_method request = Some ''resources/list'' then
        (if \<not> fst (hasCapability sm http_sessionId Resources)
         then (Inl (not_negotiated ''Resources''), sm)
         else (Inr (ResourcesListResult [''config://sample'', ''text://welcome'']), sm))
      else if req_method request = Some ''resources/templates/list'' then
        (if \<not> fst (hasCapability sm http_sessionId Resources)
         then (Inl (not_negotiated ''Resources''), sm)
         else (Inr (ResourceTemplatesListResult
                      [''user://profile/{userId}'', ''file:///{path}'', ''api:///{endpoint}/{id}'',
                       ''db:///{table}/{query}'', ''log:///{service}/{date}'']), sm))
      else if req_method request = Some ''resources/read'' then
        (if \<not> fst (hasCapability sm http_sessionId Resources)
         then (Inl (not_negotiated ''Resources''), sm)
         else case params request of
                None \<Rightarrow> (Inl (JsError ''Cannot read properties of undefined (reading 'uri')''), sm)
              | Some p \<Rightarrow>
                  (if p_uri p = Some ''config://sample''
                   then (Inr (ReadResourceResult ''config://sample'' ''application/json''
                                (sampleConfigText rt)), sm)
                   else if p_uri p = Some ''text://welcome''
                   then (Inr (ReadResourceResult ''text://welcome'' ''text/plain'' welcome_text), sm)
                   else (Inl (Structured INVALID_PARAMS
                                (''Resource not found: '' @ show_opt (p_uri p))), sm)))
      else if req_method request = Some ''prompts/list'' then
        (if \<not> fst (hasCapability sm http_sessionId Prompts)
         then (Inl (not_negotiated ''Prompts''), sm)
         else (Inr (PromptsListResult [''calculate'', ''query'']), sm))
      else if req_method request = Some ''prompts/get'' then
        (if \<not> fst (hasCapability sm http_sessionId Prompts)
         then (Inl (not_negotiated ''Prompts''), sm)
         else case params request of
                None \<Rightarrow> (Inl (JsError ''Cannot read properties of undefined (reading 'name')''), sm)
              | Some p \<Rightarrow> (getPrompt (p_name p) (p_promptArguments p), sm))
      else (Inl (Structured METHOD_NOT_FOUND (''Method not found: '' @ show_opt (req_method request))), sm))"

text \<open>The JSON-RPC response and the HTTP status it is sent with.\<close>

record RpcError =
  code :: int
  message :: string
  data :: "json option"

record JsonRpcResponse =
  status :: nat
  res_id :: "json option"
  result :: "payload option"
  rpc_error :: "RpcError option"

definition sendResult :: "json option \<Rightarrow> payload \<Rightarrow> JsonRpcResponse" where
  "sendResult i r = \<lparr> status = 200, res_id = i, result = Some r, rpc_error = None \<rparr>"

definition sendError :: "json option \<Rightarrow> int \<Rightarrow> string \<Rightarrow> JsonRpcResponse" where
  "sendError i c msg =
     \<lparr> status = (if c = METHOD_NOT_FOUND then 404 else 400), res_id = i, result = None,
       rpc_error = Some \<lparr> code = c, message = msg, data = None \<rparr> \<rparr>"

text \<open>
  \<open>handleRequest\<close>; \<open>None\<close> is a request without a decoded body, whose first field
  access fails and ends in the outer \<open>catch\<close>.
\<close>

definition handleRequest ::
  "Runtime \<Rightarrow> SessionManager \<Rightarrow> int \<Rightarrow> JsonRpcRequest option \<Rightarrow> JsonRpcResponse \<times> SessionManager"
where
  "handleRequest rt sm now body =
     (case body of
        None \<Rightarrow> (sendError (Some JNull) PARSE_ERROR ''Failed to parse request'', sm)
      | Some request \<Rightarrow>
          (if jsonrpc request \<noteq> Some ''2.0''
           then (sendError (req_id request) INVALID_REQUEST ''Invalid JSON-RPC version'', sm)
           else case req_method request of
                  None \<Rightarrow> (sendError (req_id request) INVALID_REQUEST ''Method is required'', sm)
                | Some m \<Rightarrow>
                    (if m = [] then
                       (sendError (req_id request) INVALID_REQUEST ''Method is required'', sm)
                     else case routeRequest rt sm now request of
                            (Inr r, sm') \<Rightarrow> (sendResult (req_id request) r, sm')
                          | (Inl (Structured c msg), sm') \<Rightarrow>
                              (if c \<noteq> 0 \<and> msg \<noteq> []
                               then (sendError (req_id request) c msg, sm')
                               else (sendError (req_id request) INTERNAL_ERROR
                                       (if msg \<noteq> [] then msg else ''Internal server error''), sm'))
                          | (Inl (JsError msg), sm') \<Rightarrow>
                              (sendError (req_id request) INTERNAL_ERROR
                                 (if msg \<noteq> [] then msg else ''Internal server error''), sm'))))"

section \<open>Vocabulary of the properties\<close>

text \<open>
  The per-key rule table of the negotiation, as the specification words it, for the five
  named capabilities.
\<close>

definition rule_table :: "Capabilities \<Rightarrow> Capabilities \<Rightarrow> capability \<Rightarrow> bool" where
  "rule_table server client k =
     (case k of
        Tools \<Rightarrow> truthy_opt (tools server) \<and> truthy_opt (tools client)
      | Resources \<Rightarrow> truthy_opt (resources server) \<and> truthy_opt (resources client)
      | Prompts \<Rightarrow> truthy_opt (prompts server) \<and> truthy_opt (prompts client)
      | Logging \<Rightarrow> truthy_opt (logging server) \<and> truthy_opt (logging client)
      | Sampling \<Rightarrow> truthy_opt (sampling client)
      | Experimental \<Rightarrow> False)"

text \<open>The capability a method requires, resolved by the prefix of its name.\<close>

definition required_capability :: "string \<Rightarrow> capability option" where
  "required_capability m =
     (if take 6 m = ''tools/'' then Some Tools
      else if take 10 m = ''resources/'' then Some Resources
      else if take 8 m = ''prompts/'' then Some Prompts
      else None)"

text \<open>The message of the error that a gated method without its capability ends in.\<close>

definition gate_message :: "string \<Rightarrow> string" where
  "gate_message m =
     (if m = ''tools/list'' \<or> m = ''tools/call''
        then ''Tools capability not negotiated for this session''
      else if m = ''resources/list'' \<or> m = ''resources/templates/list'' \<or> m = ''resources/read''
        then ''Resources capability not negotiated for this session''
      else if m = ''prompts/list'' \<or> m = ''prompts/get''
        then ''Prompts capability not negotiated for this session''
      else ''Method not found: '' @ m)"

text \<open>A tool result is flagged as an error when it carries \<open>isError: true\<close>.\<close>

definition flagged_as_error :: "payload \<Rightarrow> bool" where
  "flagged_as_error p = (case p of ToolCallResult t (Some True) \<Rightarrow> True | _ \<Rightarrow> False)"

definition reply_code :: "message_result \<Rightarrow> int option" where
  "reply_code r = (case r of ErrorReply st c msg i \<Rightarrow> Some c | _ \<Rightarrow> None)"

text \<open>\<open>pat\<close> occurs in \<open>s\<close> at position \<open>i\<close>.\<close>

definition occurs_at :: "string \<Rightarrow> string \<Rightarrow> nat \<Rightarrow> bool" where
  "occurs_at pat s i \<longleftrightarrow> i \<le> length s \<and> take (length pat) (drop i s) = pat"


subsection \<open>Sample data\<close>


definition tools_only_client :: Capabilities where
  "tools_only_client = no_capabilities\<lparr>tools := Some (JObj [])\<rparr>"


definition sampling_client :: Capabilities where
  "sampling_client = no_capabilities\<lparr>sampling := Some (JObj [])\<rparr>"

definition empty_experimental_server :: Capabilities where
  "empty_experimental_server = default_server_capabilities\<lparr>experimental := Some []\<rparr>"

definition toString_client :: Capabilities where
  "toString_client = no_capabilities\<lparr>experimental := Some [(''toString'', JObj [])]\<rparr>"

text \<open>Two sessions, created at times 0 and 200000.\<close>

definition two_sessions :: SessionManager where
  "two_sessions =
     snd (createSession (snd (createSession (new_SessionManager None) 0 ''old'' None None
                                tools_only_client))
            200000 ''new'' None None tools_only_client)"

definition old_stream :: SSESession where
  "old_stream =
     \<lparr> sse_id = ''old'', transport = ''old'', capabilities = [], sse_createdAt = 0,
       sse_lastActivity = 0 \<rparr>"

definition new_stream :: SSESession where
  "new_stream =
     \<lparr> sse_id = ''new'', transport = ''new'', capabilities = [], sse_createdAt = 200000,
       sse_lastActivity = 200000 \<rparr>"

definition two_streams :: SSETransportManager where
  "two_streams =
     \<lparr> sse_sessions = [(''old'', old_stream), (''new'', new_stream)],
       closeCalls = (\<lambda>t. 0), errorLog = [] \<rparr>"

definition already_closed :: "string \<Rightarrow> string option" where
  "already_closed t = Some ''already closed''"

definition failing_handler :: "string \<Rightarrow> json option \<Rightarrow> handler_outcome" where
  "failing_handler t body = Threw ''Error: stream is not readable'' False"

definition late_failing_handler :: "string \<Rightarrow> json option \<Rightarrow> handler_outcome" where
  "late_failing_handler t body = Threw ''Error: stream is not readable'' True"

definition sample_runtime :: Runtime where
  "sample_runtime =
     \<lparr> calculatorTool =
         (\<lambda>e. \<lparr> success = False, content = None, error = Some ''Expression is required'' \<rparr>),
       timestampTool = (\<lambda>f. \<lparr> success = True, content = Some ''0'', error = None \<rparr>),
       stringTool =
         (\<lambda>t operation. \<lparr> success = False, content = None, error = Some ''Text is required'' \<rparr>),
       randomText = (\<lambda>mn mx i. ''0''),
       sampleConfigText = ''{}'' \<rparr>"

definition no_params :: Params where
  "no_params =
     \<lparr> p_protocolVersion = None, p_capabilities = None, p_clientInfo = None, p_name = None,
       p_arguments = None, p_promptArguments = None, p_uri = None \<rparr>"

definition rpc_request :: "json \<Rightarrow> string \<Rightarrow> Params option \<Rightarrow> JsonRpcRequest" where
  "rpc_request i m ps = \<lparr> jsonrpc = Some ''2.0'', req_id = Some i, req_method = Some m, params = ps \<rparr>"

text \<open>
  The session manager of the HTTP handler after \<open>initialize\<close> with the client
  capabilities \<open>{tools: {}}\<close>.
\<close>

definition tools_only_session :: SessionManager where
  "tools_only_session =
     snd (handleRequest sample_runtime (new_SessionManager (Some default_server_capabilities)) 0
            (Some (rpc_request (JNum 1) ''initialize''
                     (Some (no_params\<lparr>p_capabilities := Some tools_only_client\<rparr>)))))"

definition random_number_params :: Params where
  "random_number_params =
     no_params\<lparr> p_name := Some ''random_number'',
                p_arguments := Some (no_arguments\<lparr>arg_min := Some 10, arg_max := Some 5\<rparr>) \<rparr>"

definition failing_call :: JsonRpcRequest where
  "failing_call = rpc_request (JNum 42) ''tools/call'' (Some random_number_params)"




section \<open>Capability negotiation\<close>

text \<open>
  The five named flags follow the rule table: the first four need both sides, sampling
  needs the client alone.
\<close>

lemma negotiate_named_keys:
  "n_tools (negotiateCapabilities s c) = (truthy_opt (tools s) \<and> truthy_opt (tools c))"
  "n_resources (negotiateCapabilities s c) = (truthy_opt (resources s) \<and> truthy_opt (resources c))"
  "n_prompts (negotiateCapabilities s c) = (truthy_opt (prompts s) \<and> truthy_opt (prompts c))"
  "n_logging (negotiateCapabilities s c) = (truthy_opt (logging s) \<and> truthy_opt (logging c))"
  "n_sampling (negotiateCapabilities s c) = truthy_opt (sampling c)"
  by (simp_all add: negotiateCapabilities_def)

lemma set_true_lookup:
  "map_of (set_true f acc) k = Some True \<longleftrightarrow>
     (k = f \<and> f \<noteq> ''__proto__'') \<or> map_of acc k = Some True"
  by (auto simp: set_true_def update_conv')

lemma negotiateExperimental_lookup:
  "map_of (negotiateExperimental srv cl acc) k = Some True \<Longrightarrow>
     map_of acc k = Some True \<or>
     (\<exists>v. (k, v) \<in> set cl \<and> truthy v \<and> prop_truthy srv k)"
proof (induction srv cl acc rule: negotiateExperimental.induct)
  case (1 serverExp acc)
  then show ?case by simp
next
  case (2 serverExp feature clientSupport rest acc)
  then show ?case
    by (fastforce simp: set_true_lookup split: if_splits)
qed

text \<open>
  An experimental key that is not the name of a member of \<open>Object.prototype\<close> is
  negotiated only if both sides advertise it.
\<close>

lemma negotiated_experimental_own_keys:
  assumes "negotiated_experimental (negotiateCapabilities server client) key"
    and "key \<notin> set object_prototype_keys"
    and "\<forall>obj. experimental client = Some obj \<longrightarrow> distinct (map fst obj)"
  shows "advertises_experimental server key \<and> advertises_experimental client key"
proof -
  from assms(1) obtain cl srv where
    cl: "experimental client = Some cl" and srv: "experimental server = Some srv"
    and neg: "map_of (negotiateExperimental srv cl []) key = Some True"
    by (auto simp: negotiated_experimental_def negotiateCapabilities_def split: option.splits)
  from negotiateExperimental_lookup [OF neg] obtain v where
    v: "(key, v) \<in> set cl" "truthy v" "prop_truthy srv key" by auto
  from assms(3) cl have "distinct (map fst cl)" by simp
  with v(1) have "map_of cl key = Some v" by simp
  with v(2) cl have c: "advertises_experimental client key"
    by (simp add: advertises_experimental_def)
  from v(3) assms(2) srv have s: "advertises_experimental server key"
    by (auto simp: prop_truthy_def advertises_experimental_def split: option.splits)
  from c s show ?thesis by simp
qed

text \<open>
  Claim C1.  The negotiated set should mark an experimental key only if both the server
  and the client advertise that key.  The loop tests the server's side with the property
  read \<open>serverCapabilities.experimental[feature]\<close>, which also finds the members that
  every object inherits: against a server whose \<open>experimental\<close> object is empty, a
  client that advertises the key \<open>toString\<close> gets that key negotiated, although the
  server does not advertise it.
\<close>

theorem inherited_key_negotiated:
  "negotiated_experimental (negotiateCapabilities empty_experimental_server toString_client)
     ''toString'' \<and>
   advertises_experimental toString_client ''toString'' \<and>
   \<not> advertises_experimental empty_experimental_server ''toString''"
  by (simp add: negotiated_experimental_def negotiateCapabilities_def empty_experimental_server_def
      toString_client_def default_server_capabilities_def no_capabilities_def prop_truthy_def
      object_prototype_keys_def set_true_def advertises_experimental_def)

section \<open>The session store\<close>

text \<open>The keys of the store stay distinct under every operation, as the keys of a \<open>Map\<close> do.\<close>

lemma sessions_distinct:
  "distinct (map fst (sessions (new_SessionManager caps)))"
  "distinct (map fst (sessions sm)) \<Longrightarrow>
     distinct (map fst (sessions (snd (createSession sm now sid ci pv ccaps))))"
  "distinct (map fst (sessions sm)) \<Longrightarrow> distinct (map fst (sessions (snd (getSession sm now sid))))"
  "distinct (map fst (sessions sm)) \<Longrightarrow> distinct (map fst (sessions (removeSession sm sid)))"
  by (simp_all add: new_SessionManager_def createSession_def getSession_def removeSession_def
      Let_def distinct_update distinct_delete split: option.splits)

lemma sse_sessions_distinct:
  "distinct (map fst (sse_sessions mgr)) \<Longrightarrow>
     distinct (map fst (sse_sessions (sse_removeSession cr mgr sid)))"
  "distinct (map fst (sse_sessions mgr)) \<Longrightarrow>
     distinct (map fst (sse_sessions (snd (handleMessage h mgr now sid body))))"
  by (simp_all add: sse_removeSession_def handleMessage_def Let_def distinct_update
      distinct_delete split: option.splits handler_outcome.splits)

text \<open>Only \<open>initialize\<close> changes the session manager.\<close>

lemma route_frame:
  "req_method request \<noteq> Some ''initialize'' \<Longrightarrow> snd (routeRequest rt sm now request) = sm"
  by (simp add: routeRequest_def split: option.splits)

lemma createSession_lookup:
  "map_of (sessions (snd (createSession sm now sid ci pv caps))) sid =
     Some \<lparr> ms_id = sid, clientInfo = ci, protocolVersion = pv, clientCapabilities = caps,
            negotiatedCapabilities = negotiateCapabilities (serverCapabilities sm) caps,
            metadata = [], createdAt = now, lastActivity = now \<rparr>"
  by (simp add: createSession_def Let_def update_conv')

text \<open>
  Claim C2.  Right after \<open>createSession\<close> for an id, \<open>hasCapability\<close> on that id answers
  what the rule table gives for the server's and the client's advertised sets, for each
  of tools, resources, prompts, logging and sampling; for an id without a stored session
  it answers false.
\<close>

theorem hasCapability_matches_table:
  "(k \<noteq> Experimental \<longrightarrow>
      fst (hasCapability (snd (createSession sm now sid ci pv caps)) sid k)
        = rule_table (serverCapabilities sm) caps k) \<and>
   (map_of (sessions sm) sid = None \<longrightarrow> fst (hasCapability sm sid k) = False)"
  by (cases k) (simp_all add: hasCapability_def createSession_lookup rule_table_def
      negotiateCapabilities_def)

theorem hasCapability_matches_table_witness:
  "Sampling \<noteq> Experimental \<and>
   fst (hasCapability (snd (createSession (new_SessionManager None) 5 ''s1'' None None
          sampling_client)) ''s1'' Sampling) = True \<and>
   map_of (sessions (new_SessionManager None)) ''s1'' = None \<and>
   fst (hasCapability (new_SessionManager None) ''s1'' Sampling) = False"
  using hasCapability_matches_table [of Sampling "new_SessionManager None" 5 "''s1''" None None
      sampling_client]
  by (simp add: new_SessionManager_def rule_table_def no_capabilities_def sampling_client_def)



text \<open>
  Claim C10.  \<open>hasCapability\<close> only reads the store: the manager it leaves behind is the
  manager it was given, so no stored session and no \<open>lastActivity\<close> changes, whereas
  \<open>getSession\<close> stamps \<open>lastActivity\<close> of the session it finds.  The router, which
  checks capabilities with \<open>hasCapability\<close> alone, therefore leaves the store unchanged
  on every request other than \<open>initialize\<close>: such requests do not extend the idle
  window of a session.
\<close>

theorem hasCapability_pure_read:
  "snd (hasCapability sm sid k) = sm \<and>
   (map_of (sessions sm) sid = Some s \<longrightarrow>
      map_of (sessions (snd (getSession sm now sid))) sid = Some (s\<lparr>lastActivity := now\<rparr>)) \<and>
   (req_method request \<noteq> Some ''initialize'' \<longrightarrow>
      snd (routeRequest rt sm now request) = sm)"
  using route_frame [of request rt sm now]
  by (simp add: hasCapability_def getSession_def Let_def update_conv' split: option.splits)

theorem hasCapability_pure_read_witness:
  "snd (hasCapability two_sessions ''old'' Tools) = two_sessions \<and>
   map_option lastActivity (map_of (sessions two_sessions) ''old'') = Some 0 \<and>
   map_option lastActivity
     (map_of (sessions (snd (getSession two_sessions 777 ''old''))) ''old'') = Some 777 \<and>
   req_method (rpc_request (JNum 3) ''tools/list'' None) \<noteq> Some ''initialize'' \<and>
   snd (routeRequest sample_runtime two_sessions 777 (rpc_request (JNum 3) ''tools/list'' None))
     = two_sessions"
proof -
  obtain s where s: "map_of (sessions two_sessions) ''old'' = Some s" "lastActivity s = 0"
    by (simp add: two_sessions_def createSession_def Let_def new_SessionManager_def)
  have m: "req_method (rpc_request (JNum 3) ''tools/list'' None) \<noteq> Some ''initialize''"
    by (simp add: rpc_request_def)
  from hasCapability_pure_read [of two_sessions "''old''" Tools s 777
      "rpc_request (JNum 3) ''tools/list'' None" sample_runtime] s m
  show ?thesis by simp
qed

section \<open>The idle sweep\<close>

lemma removeSession_sessions:
  "sessions (removeSession sm sid) = filter (\<lambda>p. fst p \<noteq> sid) (sessions sm)"
  by (auto simp: removeSession_def AList.delete_eq intro: filter_cong)

lemma cleanup_loop_sessions:
  "sessions (cleanup_loop now m es sm) =
     filter (\<lambda>p. \<not> (\<exists>s. (fst p, s) \<in> set es \<and> now - lastActivity s > m)) (sessions sm)"
proof (induction now m es sm rule: cleanup_loop.induct)
  case (1 now maxInactivityMs sm)
  then show ?case by simp
next
  case (2 now maxInactivityMs sessionId session rest sm)
  then show ?case
    by (auto simp: removeSession_sessions intro!: filter_cong)
qed

lemma sse_removeSession_sessions:
  "sse_sessions (sse_removeSession cr mgr sid) = filter (\<lambda>p. fst p \<noteq> sid) (sse_sessions mgr)"
proof (cases "map_of (sse_sessions mgr) sid")
  case None
  then have "sid \<notin> fst ` set (sse_sessions mgr)" by (simp add: map_of_eq_None_iff)
  then have "filter (\<lambda>p. fst p \<noteq> sid) (sse_sessions mgr) = sse_sessions mgr"
    by (auto simp: filter_id_conv)
  with None show ?thesis by (simp add: sse_removeSession_def)
next
  case (Some a)
  then show ?thesis
    by (auto simp: sse_removeSession_def AList.delete_eq intro: filter_cong)
qed

lemma sse_cleanup_loop_sessions:
  "sse_sessions (sse_cleanup_loop cr now es mgr) =
     filter (\<lambda>p. \<not> (\<exists>s. (fst p, s) \<in> set es \<and> now - sse_lastActivity s > staleTimeout))
       (sse_sessions mgr)"
proof (induction cr now es mgr rule: sse_cleanup_loop.induct)
  case (1 cr now mgr)
  then show ?case by simp
next
  case (2 cr now sessionId session rest mgr)
  then show ?case
    by (auto simp: sse_removeSession_sessions intro!: filter_cong)
qed

text \<open>With distinct keys, an entry is selected by its key exactly when it is by its value.\<close>

lemma filter_by_key_or_value:
  assumes "distinct (map fst es)"
  shows "filter (\<lambda>p. \<not> (\<exists>s. (fst p, s) \<in> set es \<and> P s)) es = filter (\<lambda>p. \<not> P (snd p)) es"
proof (rule filter_cong [OF refl])
  fix p assume p: "p \<in> set es"
  have "\<And>s. (fst p, s) \<in> set es \<Longrightarrow> s = snd p"
    using assms p by (metis eq_key_imp_eq_value prod.collapse)
  moreover have "(fst p, snd p) \<in> set es" using p by simp
  ultimately show "(\<not> (\<exists>s. (fst p, s) \<in> set es \<and> P s)) = (\<not> P (snd p))" by blast
qed

text \<open>
  Claim C6.  A sweep at time \<open>now\<close> evicts exactly the timed-out sessions: the list of
  active sessions after the sweep is the list before it without the sessions whose
  inactivity \<open>now - lastActivity\<close> exceeds the threshold, so each of those is absent and
  each session touched within the window is still there, in the session manager (whose
  threshold is an argument with a default of five minutes) and in the streaming transport
  manager (whose threshold is five minutes).  The keys of a \<open>Map\<close> are distinct.
\<close>

theorem idle_sweep_exact:
  assumes "distinct (map fst (sessions sm))" and "distinct (map fst (sse_sessions mgr))"
  shows "getActiveSessions (cleanupStaleSessions sm now maxInactivityMs) =
           filter (\<lambda>s. \<not> now - lastActivity s
                            > (case maxInactivityMs of None \<Rightarrow> 300000 | Some m \<Rightarrow> m))
             (getActiveSessions sm) \<and>
         sse_getActiveSessions (cleanup_tick closeRejects now mgr) =
           filter (\<lambda>s. \<not> now - sse_lastActivity s > 300000) (sse_getActiveSessions mgr)"
proof -
  have a: "sessions (cleanupStaleSessions sm now maxInactivityMs) =
             filter (\<lambda>p. \<not> now - lastActivity (snd p)
                              > (case maxInactivityMs of None \<Rightarrow> 300000 | Some m \<Rightarrow> m))
               (sessions sm)"
    unfolding cleanupStaleSessions_def cleanup_loop_sessions
    using filter_by_key_or_value [OF assms(1)] by (simp split: option.splits)
  have b: "sse_sessions (cleanup_tick closeRejects now mgr) =
             filter (\<lambda>p. \<not> now - sse_lastActivity (snd p) > 300000) (sse_sessions mgr)"
    unfolding cleanup_tick_def sse_cleanup_loop_sessions
    using filter_by_key_or_value [OF assms(2)] by (simp add: staleTimeout_def)
  show ?thesis
    by (simp add: getActiveSessions_def sse_getActiveSessions_def a b filter_map comp_def)
qed

theorem idle_sweep_exact_witness:
  "distinct (map fst (sessions two_sessions)) \<and>
   distinct (map fst (sse_sessions two_streams)) \<and>
   map ms_id (getActiveSessions two_sessions) = [''old'', ''new''] \<and>
   map ms_id (getActiveSessions (cleanupStaleSessions two_sessions 400000 None)) = [''new''] \<and>
   sse_getActiveSessions (cleanup_tick already_closed 400000 two_streams) = [new_stream]"
proof -
  have d: "distinct (map fst (sessions two_sessions))"
    "distinct (map fst (sse_sessions two_streams))"
    by (simp_all add: two_sessions_def two_streams_def createSession_def Let_def
        new_SessionManager_def)
  from idle_sweep_exact [OF d, of 400000 None already_closed] d
  show ?thesis
    by (simp add: two_sessions_def two_streams_def createSession_def Let_def
        new_SessionManager_def getActiveSessions_def sse_getActiveSessions_def
        old_stream_def new_stream_def)
qed

section \<open>Removal of a streaming session\<close>

lemma sse_removeSession_absent:
  "map_of (sse_sessions (sse_removeSession cr mgr sid)) sid = None"
  by (simp add: sse_removeSession_def delete_conv' split: option.splits)

lemma sse_removeSession_idem:
  "sse_removeSession cr (sse_removeSession cr mgr sid) sid = sse_removeSession cr mgr sid"
  using sse_removeSession_absent [of cr mgr sid]
  by (simp add: sse_removeSession_def [of cr "sse_removeSession cr mgr sid"])

lemma sse_removeSession_funpow:
  "((\<lambda>m. sse_removeSession cr m sid) ^^ Suc n) mgr = sse_removeSession cr mgr sid"
  by (induction n) (simp_all add: sse_removeSession_idem)

text \<open>
  Claim C7.  Removing a streaming session is idempotent.  Any positive number of
  \<open>removeSession\<close> calls for an id leaves the state that the first call leaves, and the
  id is absent from the store in it.  For a stored session, two calls make exactly one
  call of \<open>close\<close> on its transport and none on any other; a rejection of that \<open>close\<close>
  only adds a line to the error log, and the function returns in every case.  For an
  absent id a call changes nothing.
\<close>

theorem removeSession_idempotent:
  "((\<lambda>m. sse_removeSession closeRejects m sid) ^^ Suc n) mgr
     = sse_removeSession closeRejects mgr sid \<and>
   map_of (sse_sessions (sse_removeSession closeRejects mgr sid)) sid = None \<and>
   (map_of (sse_sessions mgr) sid = Some session \<longrightarrow>
      closeCalls (sse_removeSession closeRejects (sse_removeSession closeRejects mgr sid) sid)
        = (closeCalls mgr)(transport session := Suc (closeCalls mgr (transport session)))) \<and>
   (map_of (sse_sessions mgr) sid = None \<longrightarrow> sse_removeSession closeRejects mgr sid = mgr)"
proof -
  have once: "map_of (sse_sessions mgr) sid = Some session \<longrightarrow>
      closeCalls (sse_removeSession closeRejects mgr sid)
        = (closeCalls mgr)(transport session := Suc (closeCalls mgr (transport session)))"
    by (simp add: sse_removeSession_def)
  have none: "map_of (sse_sessions mgr) sid = None \<longrightarrow>
      sse_removeSession closeRejects mgr sid = mgr"
    by (simp add: sse_removeSession_def)
  show ?thesis
    using once none
    by (simp only: sse_removeSession_funpow sse_removeSession_absent sse_removeSession_idem)
qed

theorem removeSession_idempotent_witness:
  "map_of (sse_sessions two_streams) ''old'' = Some old_stream \<and>
   closeCalls (sse_removeSession already_closed
                 (sse_removeSession already_closed two_streams ''old'') ''old'') ''old'' = 1 \<and>
   closeCalls (sse_removeSession already_closed
                 (sse_removeSession already_closed two_streams ''old'') ''old'') ''new'' = 0 \<and>
   map_of (sse_sessions (sse_removeSession already_closed two_streams ''old'')) ''old'' = None \<and>
   map_of (sse_sessions two_streams) ''gone'' = None \<and>
   sse_removeSession already_closed two_streams ''gone'' = two_streams"
proof -
  have p: "map_of (sse_sessions two_streams) ''old'' = Some old_stream"
    and a: "map_of (sse_sessions two_streams) ''gone'' = None"
    by (simp_all add: two_streams_def)
  note old = removeSession_idempotent [where closeRejects = already_closed and sid = "''old''"
      and mgr = two_streams and session = old_stream and n = 1]
  note gone = removeSession_idempotent [where closeRejects = already_closed and sid = "''gone''"
      and mgr = two_streams and session = old_stream and n = 1]
  from old p have c:
    "closeCalls (sse_removeSession already_closed
                   (sse_removeSession already_closed two_streams ''old'') ''old'')
       = (closeCalls two_streams)
           (transport old_stream := Suc (closeCalls two_streams (transport old_stream)))"
    by blast
  from old have ab:
    "map_of (sse_sessions (sse_removeSession already_closed two_streams ''old'')) ''old'' = None"
    by blast
  from gone a have same: "sse_removeSession already_closed two_streams ''gone'' = two_streams"
    by blast
  have v: "closeCalls two_streams = (\<lambda>t. 0)" "transport old_stream = ''old''"
    by (simp_all add: two_streams_def old_stream_def)
  show ?thesis
    using p a ab same by (simp add: c v)
qed

section \<open>Message submission\<close>

text \<open>
  Claim C8 as stated asks for the session-not-found error, code \<open>-32000\<close>, also when
  the session identifier is missing.  The route answers a missing identifier with
  the invalid-request error instead.
\<close>

theorem missing_session_id_counterexample:
  "reply_code (fst (messages_endpoint failing_handler (Some two_streams) 0 None None))
     = Some (- 32600) \<and>
   reply_code (fst (messages_endpoint failing_handler (Some two_streams) 0 None None))
     \<noteq> Some (- 32000)"
  by (simp add: messages_endpoint_def reply_code_def)

text \<open>
  Claim C8, amended.  A message submitted without a session identifier is answered with
  the invalid-request error (status 400, code \<open>-32600\<close>); with an identifier that no
  stored session has, with the session-not-found error (status 404, code \<open>-32000\<close>);
  in both cases nothing is thrown and the manager, its error log included, is unchanged.
  For a known session \<open>handleMessage\<close> stamps \<open>lastActivity\<close> and changes nothing else
  when the transport's handler returns.  A failure of the handler does not escape: it
  adds one line to the error log, and it is answered with the internal error (status 500,
  code \<open>-32603\<close>) unless the response headers were already sent, in which case the
  line in the log is all that happens.  The route hands a known session's message to
  \<open>handleMessage\<close> and returns its outcome.
\<close>

theorem message_submission_outcomes:
  "((sessionId = None \<or> sessionId = Some []) \<longrightarrow>
      messages_endpoint h sseManager now sessionId body
        = (ErrorReply 400 (- 32600) ''Session ID is required'' JNull, sseManager)) \<and>
   (sid \<noteq> [] \<and> map_of (sse_sessions mgr) sid = None \<longrightarrow>
      messages_endpoint h (Some mgr) now (Some sid) body
        = (ErrorReply 404 (- 32000) (''Session not found: '' @ sid) JNull, Some mgr)) \<and>
   (sid \<noteq> [] \<longrightarrow>
      messages_endpoint h (Some mgr) now (Some sid) body
        = (fst (handleMessage h mgr now sid body), Some (snd (handleMessage h mgr now sid body)))) \<and>
   (map_of (sse_sessions mgr) sid = Some session \<longrightarrow>
      sse_sessions (snd (handleMessage h mgr now sid body))
        = AList.update sid (session\<lparr>sse_lastActivity := now\<rparr>) (sse_sessions mgr) \<and>
      closeCalls (snd (handleMessage h mgr now sid body)) = closeCalls mgr \<and>
      errorLog (snd (handleMessage h mgr now sid body))
        = errorLog mgr @
            (case h (transport session) body of
               Returned \<Rightarrow> []
             | Threw err headersSent \<Rightarrow>
                 [''Error handling message for session '' @ sid @ '': '' @ err]) \<and>
      fst (handleMessage h mgr now sid body)
        = (case h (transport session) body of
             Returned \<Rightarrow> HandledByTransport
           | Threw err headersSent \<Rightarrow>
               if headersSent then LoggedOnly
               else ErrorReply 500 (- 32603) ''Internal server error'' (body_id body)))"
proof -
  have missing: "(sessionId = None \<or> sessionId = Some []) \<longrightarrow>
      messages_endpoint h sseManager now sessionId body
        = (ErrorReply 400 (- 32600) ''Session ID is required'' JNull, sseManager)"
    by (auto simp: messages_endpoint_def)
  have route: "sid \<noteq> [] \<longrightarrow>
      messages_endpoint h (Some mgr) now (Some sid) body
        = (fst (handleMessage h mgr now sid body), Some (snd (handleMessage h mgr now sid body)))"
    by (simp add: messages_endpoint_def split_beta)
  have unknown: "map_of (sse_sessions mgr) sid = None \<longrightarrow>
      handleMessage h mgr now sid body
        = (ErrorReply 404 (- 32000) (''Session not found: '' @ sid) JNull, mgr)"
    by (simp add: handleMessage_def)
  have known: "map_of (sse_sessions mgr) sid = Some session \<longrightarrow>
      sse_sessions (snd (handleMessage h mgr now sid body))
        = AList.update sid (session\<lparr>sse_lastActivity := now\<rparr>) (sse_sessions mgr) \<and>
      closeCalls (snd (handleMessage h mgr now sid body)) = closeCalls mgr \<and>
      errorLog (snd (handleMessage h mgr now sid body))
        = errorLog mgr @
            (case h (transport session) body of
               Returned \<Rightarrow> []
             | Threw err headersSent \<Rightarrow>
                 [''Error handling message for session '' @ sid @ '': '' @ err]) \<and>
      fst (handleMessage h mgr now sid body)
        = (case h (transport session) body of
             Returned \<Rightarrow> HandledByTransport
           | Threw err headersSent \<Rightarrow>
               if headersSent then LoggedOnly
               else ErrorReply 500 (- 32603) ''Internal server error'' (body_id body))"
    by (simp add: handleMessage_def Let_def split: handler_outcome.splits)
  from route unknown have unknown_route:
    "sid \<noteq> [] \<and> map_of (sse_sessions mgr) sid = None \<longrightarrow>
       messages_endpoint h (Some mgr) now (Some sid) body
         = (ErrorReply 404 (- 32000) (''Session not found: '' @ sid) JNull, Some mgr)"
    by simp
  from missing unknown_route route known show ?thesis
    by blast
qed

theorem message_submission_outcomes_witness:
  "messages_endpoint failing_handler (Some two_streams) 500 (Some []) None
     = (ErrorReply 400 (- 32600) ''Session ID is required'' JNull, Some two_streams) \<and>
   map_of (sse_sessions two_streams) ''gone'' = None \<and>
   messages_endpoint failing_handler (Some two_streams) 500 (Some ''gone'') None
     = (ErrorReply 404 (- 32000) ''Session not found: gone'' JNull, Some two_streams) \<and>
   map_of (sse_sessions two_streams) ''old'' = Some old_stream \<and>
   map_of (sse_sessions (snd (handleMessage failing_handler two_streams 500 ''old'' None))) ''old''
     = Some (old_stream\<lparr>sse_lastActivity := 500\<rparr>) \<and>
   fst (handleMessage failing_handler two_streams 500 ''old'' None)
     = ErrorReply 500 (- 32603) ''Internal server error'' JNull \<and>
   errorLog (snd (handleMessage failing_handler two_streams 500 ''old'' None))
     = [''Error handling message for session old: Error: stream is not readable''] \<and>
   fst (handleMessage late_failing_handler two_streams 500 ''old'' None) = LoggedOnly \<and>
   errorLog (snd (handleMessage late_failing_handler two_streams 500 ''old'' None))
     = [''Error handling message for session old: Error: stream is not readable''] \<and>
   fst (messages_endpoint late_failing_handler (Some two_streams) 500 (Some ''old'') None)
     = LoggedOnly"
proof -
  have a: "map_of (sse_sessions two_streams) ''gone'' = None"
    and p: "map_of (sse_sessions two_streams) ''old'' = Some old_stream"
    by (simp_all add: two_streams_def)
  have ne: "''gone'' \<noteq> []" "''old'' \<noteq> []" by simp_all
  have v: "errorLog two_streams = []" "transport old_stream = ''old''"
    by (simp_all add: two_streams_def old_stream_def)
  note miss = message_submission_outcomes [where sessionId = "Some []" and h = failing_handler
      and sseManager = "Some two_streams" and now = 500 and body = None and sid = "''gone''"
      and mgr = two_streams and session = old_stream]
  note hit = message_submission_outcomes [where sessionId = "Some []" and h = failing_handler
      and sseManager = "Some two_streams" and now = 500 and body = None and sid = "''old''"
      and mgr = two_streams and session = old_stream]
  note late = message_submission_outcomes [where sessionId = "Some []"
      and h = late_failing_handler and sseManager = "Some two_streams" and now = 500
      and body = None and sid = "''old''" and mgr = two_streams and session = old_stream]
  from miss have r1:
    "messages_endpoint failing_handler (Some two_streams) 500 (Some []) None
       = (ErrorReply 400 (- 32600) ''Session ID is required'' JNull, Some two_streams)"
    by blast
  from miss a ne have r2:
    "messages_endpoint failing_handler (Some two_streams) 500 (Some ''gone'') None
       = (ErrorReply 404 (- 32000) (''Session not found: '' @ ''gone'') JNull, Some two_streams)"
    by blast
  from hit p have r3:
    "sse_sessions (snd (handleMessage failing_handler two_streams 500 ''old'' None))
       = AList.update ''old'' (old_stream\<lparr>sse_lastActivity := 500\<rparr>) (sse_sessions two_streams)"
    and r4: "fst (handleMessage failing_handler two_streams 500 ''old'' None)
       = (case failing_handler (transport old_stream) None of
            Returned \<Rightarrow> HandledByTransport
          | Threw err headersSent \<Rightarrow>
              if headersSent then LoggedOnly
              else ErrorReply 500 (- 32603) ''Internal server error'' (body_id None))"
    and r5: "errorLog (snd (handleMessage failing_handler two_streams 500 ''old'' None))
       = errorLog two_streams @
           (case failing_handler (transport old_stream) None of
              Returned \<Rightarrow> []
            | Threw err headersSent \<Rightarrow>
                [''Error handling message for session '' @ ''old'' @ '': '' @ err])"
    by blast+
  from late p have r6: "fst (handleMessage late_failing_handler two_streams 500 ''old'' None)
       = (case late_failing_handler (transport old_stream) None of
            Returned \<Rightarrow> HandledByTransport
          | Threw err headersSent \<Rightarrow>
              if headersSent then LoggedOnly
              else ErrorReply 500 (- 32603) ''Internal server error'' (body_id None))"
    and r7: "errorLog (snd (handleMessage late_failing_handler two_streams 500 ''old'' None))
       = errorLog two_streams @
           (case late_failing_handler (transport old_stream) None of
              Returned \<Rightarrow> []
            | Threw err headersSent \<Rightarrow>
                [''Error handling message for session '' @ ''old'' @ '': '' @ err])"
    by blast+
  from late ne have r8:
    "messages_endpoint late_failing_handler (Some two_streams) 500 (Some ''old'') None
       = (fst (handleMessage late_failing_handler two_streams 500 ''old'' None),
          Some (snd (handleMessage late_failing_handler two_streams 500 ''old'' None)))"
    by blast
  show ?thesis
    using a p r1 r2
    by (simp add: r3 r4 r5 r6 r7 r8 v update_conv' failing_handler_def late_failing_handler_def
        body_id_def)
qed

section \<open>The capability gate of the router\<close>

lemma tools_prefix_names:
  assumes "take 6 m = ''tools/''"
  shows "m \<noteq> ''ping''" "m \<noteq> ''initialize''" "m \<noteq> ''resources/list''"
    "m \<noteq> ''resources/templates/list''" "m \<noteq> ''resources/read''" "m \<noteq> ''prompts/list''"
    "m \<noteq> ''prompts/get''" "m \<noteq> []"
  using assms by auto

lemma resources_prefix_names:
  assumes "take 10 m = ''resources/''"
  shows "m \<noteq> ''ping''" "m \<noteq> ''initialize''" "m \<noteq> ''tools/list''"
    "m \<noteq> ''tools/call''" "m \<noteq> ''prompts/list''" "m \<noteq> ''prompts/get''" "m \<noteq> []"
  using assms by auto

lemma prompts_prefix_names:
  assumes "take 8 m = ''prompts/''"
  shows "m \<noteq> ''ping''" "m \<noteq> ''initialize''" "m \<noteq> ''tools/list''"
    "m \<noteq> ''tools/call''" "m \<noteq> ''resources/list''"
    "m \<noteq> ''resources/templates/list''" "m \<noteq> ''resources/read''" "m \<noteq> []"
  using assms by auto

lemma gated_route:
  assumes "required_capability m = Some cap"
    and "\<not> fst (hasCapability sm http_sessionId cap)"
    and "req_method request = Some m"
  shows "routeRequest rt sm now request = (Inl (Structured (- 32601) (gate_message m)), sm)"
proof -
  consider "cap = Tools" "take 6 m = ''tools/''"
    | "cap = Resources" "take 10 m = ''resources/''"
    | "cap = Prompts" "take 8 m = ''prompts/''"
    using assms(1) by (auto simp: required_capability_def split: if_splits)
  then show ?thesis
  proof cases
    case 1
    show ?thesis
      using assms(2) tools_prefix_names [OF 1(2)]
      by (simp add: routeRequest_def assms(3) 1(1) not_negotiated_def METHOD_NOT_FOUND_def
          show_opt_def gate_message_def)
  next
    case 2
    show ?thesis
      using assms(2) resources_prefix_names [OF 2(2)]
      by (simp add: routeRequest_def assms(3) 2(1) not_negotiated_def METHOD_NOT_FOUND_def
          show_opt_def gate_message_def)
  next
    case 3
    show ?thesis
      using assms(2) prompts_prefix_names [OF 3(2)]
      by (simp add: routeRequest_def assms(3) 3(1) not_negotiated_def METHOD_NOT_FOUND_def
          show_opt_def gate_message_def)
  qed
qed

lemma gated_method_nonempty: "required_capability m = Some cap \<Longrightarrow> m \<noteq> []"
  by (auto simp: required_capability_def)

lemma gate_message_nonempty: "gate_message m \<noteq> []"
  by (simp add: gate_message_def)

lemma tools_only_session_eq:
  "tools_only_session =
     \<lparr> sessions =
         [(''http-default'',
           \<lparr> ms_id = ''http-default'', clientInfo = None, protocolVersion = None,
             clientCapabilities = tools_only_client,
             negotiatedCapabilities =
               \<lparr> n_tools = True, n_resources = False, n_prompts = False, n_logging = False,
                 n_sampling = False, n_experimental = None \<rparr>,
             metadata = [], createdAt = 0, lastActivity = 0 \<rparr>)],
       serverCapabilities = default_server_capabilities \<rparr>"
  by (simp add: tools_only_session_def handleRequest_def rpc_request_def routeRequest_def
      no_params_def createSession_def new_SessionManager_def default_server_capabilities_def
      no_capabilities_def tools_only_client_def negotiateCapabilities_def http_sessionId_def
      sendResult_def Let_def)

text \<open>
  Claim C3.  A request for a method under \<open>tools/\<close>, \<open>resources/\<close> or \<open>prompts/\<close> on a
  session that has not negotiated the corresponding capability (which includes the case
  of no session at all) ends in the structured error with code \<open>-32601\<close>: the router
  throws it and leaves the session manager as it was, and the handler sends it with the
  request's identifier.  The outcome depends on the method name and on nothing else in
  the request, the clock or the tools, so no tool is called and nothing is looked up.
\<close>

theorem capability_gate:
  assumes "required_capability m = Some cap"
    and "\<not> fst (hasCapability sm http_sessionId cap)"
    and "req_method request = Some m"
    and "jsonrpc request = Some ''2.0''"
  shows "routeRequest rt sm now request = (Inl (Structured (- 32601) (gate_message m)), sm) \<and>
         routeRequest rt' sm now' (request\<lparr>params := ps\<rparr>) = routeRequest rt sm now request \<and>
         handleRequest rt sm now (Some request)
           = (\<lparr> status = 404, res_id = req_id request, result = None,
                rpc_error = Some \<lparr> code = - 32601, message = gate_message m, data = None \<rparr> \<rparr>,
              sm)"
proof -
  note r = gated_route [OF assms(1,2,3), of rt now]
  have "req_method (request\<lparr>params := ps\<rparr>) = Some m"
    using assms(3) by simp
  note r' = gated_route [OF assms(1,2) this, of rt' now']
  have "handleRequest rt sm now (Some request)
          = (sendError (req_id request) (- 32601) (gate_message m), sm)"
    using gated_method_nonempty [OF assms(1)] gate_message_nonempty [of m]
    by (simp add: handleRequest_def assms(3,4) r)
  with r r' show ?thesis
    by (simp add: sendError_def METHOD_NOT_FOUND_def)
qed

theorem capability_gate_witness:
  "required_capability ''resources/list'' = Some Resources \<and>
   negotiatedCapabilities (snd (hd (sessions tools_only_session)))
     = \<lparr> n_tools = True, n_resources = False, n_prompts = False, n_logging = False,
         n_sampling = False, n_experimental = None \<rparr> \<and>
   \<not> fst (hasCapability tools_only_session http_sessionId Resources) \<and>
   fst (handleRequest sample_runtime tools_only_session 1
          (Some (rpc_request (JNum 2) ''resources/list'' None)))
     = \<lparr> status = 404, res_id = Some (JNum 2), result = None,
         rpc_error = Some \<lparr> code = - 32601,
           message = ''Resources capability not negotiated for this session'', data = None \<rparr> \<rparr>"
proof -
  have c: "required_capability ''resources/list'' = Some Resources"
    by (simp add: required_capability_def)
  have n: "\<not> fst (hasCapability tools_only_session http_sessionId Resources)"
    by (simp add: tools_only_session_eq hasCapability_def http_sessionId_def)
  have m: "req_method (rpc_request (JNum 2) ''resources/list'' None) = Some ''resources/list''"
    and j: "jsonrpc (rpc_request (JNum 2) ''resources/list'' None) = Some ''2.0''"
    by (simp_all add: rpc_request_def)
  from capability_gate [OF c n m j, of sample_runtime 1 sample_runtime 1 None] c n
  show ?thesis
    by (simp add: gate_message_def rpc_request_def tools_only_session_eq)
qed

section \<open>Failing tools\<close>

lemma random_number_range:
  "randomNumberTool draw (Some 10) (Some 5) isInteger
     = \<lparr> success = False, content = None,
         error = Some ''Minimum value cannot be greater than maximum value'' \<rparr>"
  by (simp add: randomNumberTool_def)

text \<open>
  The result of a tool that ran and reported \<open>success: false\<close> is sent in a success
  envelope with the tool's error text and without an \<open>isError\<close> field.
\<close>

lemma failing_tool_envelope:
  assumes "fst (hasCapability sm http_sessionId Tools)"
    and "dispatchTool rt (p_name p) (case p_arguments p of None \<Rightarrow> no_arguments | Some a \<Rightarrow> a)
           = Some r"
    and "\<not> success r"
  shows "handleRequest rt sm now
           (Some \<lparr> jsonrpc = Some ''2.0'', req_id = i, req_method = Some ''tools/call'',
                   params = Some p \<rparr>)
         = (\<lparr> status = 200, res_id = i, result = Some (ToolCallResult (error r) None),
              rpc_error = None \<rparr>, sm) \<and>
         \<not> flagged_as_error (ToolCallResult (error r) None)"
  using assms
  by (simp add: handleRequest_def routeRequest_def callTool_def sendResult_def
      flagged_as_error_def)

text \<open>
  The other branch of the same dispatch, taken for a tool name that the \<open>switch\<close> does
  not know, does set the flag.
\<close>

lemma unknown_tool_flagged:
  "dispatchTool rt name args = None \<Longrightarrow> flagged_as_error (callTool rt name args)"
  by (simp add: callTool_def flagged_as_error_def)

text \<open>
  Claim C4.  The content returned for a tool that runs and fails should be flagged as an
  error, inside a success envelope that echoes the identifier.  The call of
  \<open>random_number\<close> with \<open>min = 10\<close> and \<open>max = 5\<close> and identifier 42, on a session
  with the tools capability, does return a success envelope with the identifier, a
  result and no error, but the result carries the tool's error text without the
  \<open>isError\<close> flag: the branch that builds it reads \<open>result.success\<close> only to choose
  the text.
\<close>

theorem failing_tool_not_flagged:
  "fst (handleRequest sample_runtime tools_only_session 1 (Some failing_call))
     = \<lparr> status = 200, res_id = Some (JNum 42),
         result = Some (ToolCallResult
                          (Some ''Minimum value cannot be greater than maximum value'') None),
         rpc_error = None \<rparr> \<and>
   \<not> flagged_as_error
        (ToolCallResult (Some ''Minimum value cannot be greater than maximum value'') None)"
  by (simp add: tools_only_session_eq handleRequest_def rpc_request_def routeRequest_def
      hasCapability_def http_sessionId_def failing_call_def random_number_params_def
      no_params_def no_arguments_def callTool_def dispatchTool_def randomNumberTool_def
      sendResult_def flagged_as_error_def)

section \<open>Placeholder substitution\<close>

lemma occurs_at_Cons:
  "occurs_at pat (c # cs) (Suc j) = occurs_at pat cs j"
  by (simp add: occurs_at_def)


lemma indexOf_None:
  "indexOf s pat = None \<Longrightarrow> \<not> occurs_at pat s j"
proof (induction s arbitrary: j)
  case Nil
  then show ?case by (auto simp: occurs_at_def split: if_splits)
next
  case (Cons c cs)
  then have a: "take (length pat) (c # cs) \<noteq> pat" and b: "indexOf cs pat = None"
    by (auto split: if_splits)
  show ?case
  proof (cases j)
    case 0
    with a show ?thesis by (simp add: occurs_at_def)
  next
    case (Suc j')
    with Cons.IH [OF b] show ?thesis by (simp add: occurs_at_Cons)
  qed
qed


lemma length_placeholder [simp]: "length (placeholder k) = length k + 4"
  by (simp add: placeholder_def)


















end
